theory Spec2Isabelle
  imports Complex_Main "HOL-Library.Char_ord" "HOL-Library.List_Lexorder"
begin

section \<open>Data model\<close>

text \<open>
  The type declarations of the application (\<^verbatim>\<open>@/types\<close>) are imported by every component:
  \<^verbatim>\<open>User\<close>, \<^verbatim>\<open>LocalDocument\<close>, \<^verbatim>\<open>CloudDocument\<close>, \<^verbatim>\<open>UserDocument\<close>,
  \<^verbatim>\<open>LocalDocumentRevision\<close>, \<^verbatim>\<open>UserDocumentRevision\<close>. The records below carry the
  fields the components read. Field names are prefixed with the record they belong to,
  since \<open>id\<close>, \<open>name\<close> and \<open>head\<close> occur in several of them.

  Dates (\<^verbatim>\<open>createdAt\<close>, \<^verbatim>\<open>updatedAt\<close>) are date strings in the program; the only
  operation applied to them is \<^verbatim>\<open>new Date(s).getTime()\<close>, so a date is modelled by what
  that returns: a time value (milliseconds since the epoch), or \<^verbatim>\<open>NaN\<close> for a string that
  does not parse as a date.
\<close>

datatype date = Time int | InvalidDate

fun timeOf :: "date \<Rightarrow> int" where
  "timeOf (Time t) = t"
| "timeOf InvalidDate = 0"

record User =
  user_id :: string
  user_handle :: "string option"
  user_name :: string

record LocalDocument =
  local_id :: string
  local_name :: string
  local_head :: string
  local_createdAt :: date
  local_updatedAt :: date

record LocalDocumentRevision =
  lrev_id :: string
  lrev_documentId :: string
  lrev_createdAt :: date

record CloudDocumentRevision =
  crev_id :: string
  crev_documentId :: string
  crev_createdAt :: date
  crev_author :: User

record CloudDocument =
  cloud_id :: string
  cloud_handle :: "string option"
  cloud_name :: string
  cloud_head :: string
  cloud_createdAt :: date
  cloud_updatedAt :: date
  cloud_author :: User
  cloud_coauthors :: "User list"
  cloud_revisions :: "CloudDocumentRevision list"
  cloud_published :: bool
  cloud_collab :: bool

record UserDocument =
  doc_id :: string
  doc_local :: "LocalDocument option"
  doc_cloud :: "CloudDocument option"

text \<open>
  \<^verbatim>\<open>UserDocumentRevision\<close> is the union of the local and the cloud revision types.
\<close>

datatype UserDocumentRevision =
  LocalRevision LocalDocumentRevision
| CloudRevision CloudDocumentRevision

fun revision_id :: "UserDocumentRevision \<Rightarrow> string" where
  "revision_id (LocalRevision r) = lrev_id r"
| "revision_id (CloudRevision r) = crev_id r"

fun revision_documentId :: "UserDocumentRevision \<Rightarrow> string" where
  "revision_documentId (LocalRevision r) = lrev_documentId r"
| "revision_documentId (CloudRevision r) = crev_documentId r"

fun revision_createdAt :: "UserDocumentRevision \<Rightarrow> date" where
  "revision_createdAt (LocalRevision r) = lrev_createdAt r"
| "revision_createdAt (CloudRevision r) = crev_createdAt r"

fun revision_author :: "UserDocumentRevision \<Rightarrow> User option" where
  "revision_author (LocalRevision r) = None"
| "revision_author (CloudRevision r) = Some (crev_author r)"

text \<open>
  The list that \<^verbatim>\<open>DocumentInfo\<close> renders also receives the object literal
  \<^verbatim>\<open>{ id: localDocument?.head, documentId: localDocument?.id, createdAt: localDocument?.updatedAt }
  as LocalDocumentRevision\<close>. The cast hides that each of its fields is \<^verbatim>\<open>undefined\<close>
  when there is no local document, and the literal has no \<^verbatim>\<open>author\<close> field at all. An
  element of the rendered list is therefore the object as it is at run time: every field
  optional, \<open>None\<close> for \<^verbatim>\<open>undefined\<close> or absent.
\<close>

record RevisionObject =
  obj_id :: "string option"
  obj_documentId :: "string option"
  obj_createdAt :: "date option"
  obj_author :: "User option"

definition revisionObject :: "UserDocumentRevision \<Rightarrow> RevisionObject" where
  "revisionObject r =
     \<lparr>obj_id = Some (revision_id r), obj_documentId = Some (revision_documentId r),
      obj_createdAt = Some (revision_createdAt r), obj_author = revision_author r\<rparr>"

text \<open>The part of the application state the components select from.\<close>

record RootState =
  state_user :: "User option"
  state_documents :: "UserDocument list"
  state_revisions :: "LocalDocumentRevision list"


section \<open>DocumentInfo: the reconciliation of local and cloud revisions\<close>

text \<open>
  One definition per constant of the component's body
  (\<^verbatim>\<open>src/components/DocumentInfo.tsx\<close>, lines 16 to 46), in the order of the source.
\<close>

definition userDocument :: "RootState \<Rightarrow> string \<Rightarrow> UserDocument option" where
  "userDocument st documentId = find (\<lambda>d. doc_id d = documentId) (state_documents st)"

definition localDocument :: "RootState \<Rightarrow> string \<Rightarrow> LocalDocument option" where
  "localDocument st documentId = Option.bind (userDocument st documentId) doc_local"

definition cloudDocument :: "RootState \<Rightarrow> string \<Rightarrow> CloudDocument option" where
  "cloudDocument st documentId = Option.bind (userDocument st documentId) doc_cloud"

definition isLocalDocument :: "RootState \<Rightarrow> string \<Rightarrow> bool" where
  "isLocalDocument st documentId = (localDocument st documentId \<noteq> None)"

definition isCloudDocument :: "RootState \<Rightarrow> string \<Rightarrow> bool" where
  "isCloudDocument st documentId = (cloudDocument st documentId \<noteq> None)"

definition isUploaded :: "RootState \<Rightarrow> string \<Rightarrow> bool" where
  "isUploaded st documentId = (isLocalDocument st documentId \<and> isCloudDocument st documentId)"

definition localDocumentRevisions :: "RootState \<Rightarrow> string \<Rightarrow> LocalDocumentRevision list" where
  "localDocumentRevisions st documentId =
     filter (\<lambda>r. lrev_documentId r = documentId) (state_revisions st)"

definition cloudDocumentRevisions :: "RootState \<Rightarrow> string \<Rightarrow> CloudDocumentRevision list" where
  "cloudDocumentRevisions st documentId =
     (case cloudDocument st documentId of None \<Rightarrow> [] | Some c \<Rightarrow> cloud_revisions c)"

text \<open>\<^verbatim>\<open>localDocument?.head\<close>: \<open>None\<close> is \<^verbatim>\<open>undefined\<close>.\<close>

definition localHead :: "RootState \<Rightarrow> string \<Rightarrow> string option" where
  "localHead st documentId = map_option local_head (localDocument st documentId)"

definition isHeadLocalRevision :: "RootState \<Rightarrow> string \<Rightarrow> bool" where
  "isHeadLocalRevision st documentId =
     list_ex (\<lambda>r. Some (lrev_id r) = localHead st documentId) (localDocumentRevisions st documentId)"

definition isHeadCloudRevision :: "RootState \<Rightarrow> string \<Rightarrow> bool" where
  "isHeadCloudRevision st documentId =
     list_ex (\<lambda>r. Some (crev_id r) = localHead st documentId) (cloudDocumentRevisions st documentId)"

definition unsavedChanges :: "RootState \<Rightarrow> string \<Rightarrow> bool" where
  "unsavedChanges st documentId =
     (\<not> isHeadLocalRevision st documentId \<and> \<not> isHeadCloudRevision st documentId)"

text \<open>
  \<^verbatim>\<open>isUploaded && localDocument.head !== cloudDocument.head\<close>: the heads are read only
  when both documents are there.
\<close>

definition isHeadOutOfSync :: "RootState \<Rightarrow> string \<Rightarrow> bool" where
  "isHeadOutOfSync st documentId =
     (isUploaded st documentId \<and>
      map_option local_head (localDocument st documentId) \<noteq>
      map_option cloud_head (cloudDocument st documentId))"

text \<open>
  \<^verbatim>\<open>localDocumentRevisions.forEach(revision => { if (!revisions.find(r => r.id === revision.id))
  revisions.push(revision); })\<close>, started from a copy of the cloud revisions.
\<close>

definition pushRevision ::
  "LocalDocumentRevision \<Rightarrow> UserDocumentRevision list \<Rightarrow> UserDocumentRevision list" where
  "pushRevision revision revs =
     (if find (\<lambda>r. revision_id r = lrev_id revision) revs = None
      then revs @ [LocalRevision revision] else revs)"

definition revisions :: "RootState \<Rightarrow> string \<Rightarrow> UserDocumentRevision list" where
  "revisions st documentId =
     fold pushRevision (localDocumentRevisions st documentId)
       (map CloudRevision (cloudDocumentRevisions st documentId))"

text \<open>
  \<^verbatim>\<open>[...revisions].sort((a, b) => new Date(b.createdAt).getTime() - new Date(a.createdAt).getTime())\<close>.
  The comparator returns the difference of the time values, \<open>None\<close> for \<^verbatim>\<open>NaN\<close> when one
  of the dates is invalid. \<^verbatim>\<open>Array.prototype.sort\<close> reads a comparator through
  \<^verbatim>\<open>SortCompare\<close>, which takes \<^verbatim>\<open>NaN\<close> as \<open>+0\<close>: an invalid date compares equal to
  every date.
\<close>

definition comparefn :: "UserDocumentRevision \<Rightarrow> UserDocumentRevision \<Rightarrow> int option" where
  "comparefn a b =
     (case (revision_createdAt b, revision_createdAt a) of
        (Time tb, Time ta) \<Rightarrow> Some (tb - ta)
      | _ \<Rightarrow> None)"

definition SortCompare :: "UserDocumentRevision \<Rightarrow> UserDocumentRevision \<Rightarrow> int" where
  "SortCompare a b = (case comparefn a b of None \<Rightarrow> 0 | Some v \<Rightarrow> v)"

text \<open>
  \<^verbatim>\<open>Array.prototype.sort\<close> is stable. When all dates are valid the comparator is a
  consistent one, a stable sort has one result, and insertion sort computes it. When a
  date is invalid the comparator is not consistent and ECMAScript leaves the order to the
  implementation; the insertion sort is then one order an engine may give (it leaves
  \<open>a(10), bad, c(30)\<close> as it is, not most recent first).
\<close>

fun insertRevision ::
  "UserDocumentRevision \<Rightarrow> UserDocumentRevision list \<Rightarrow> UserDocumentRevision list" where
  "insertRevision x [] = [x]"
| "insertRevision x (y # ys) =
     (if SortCompare x y \<le> 0 then x # y # ys else y # insertRevision x ys)"

definition sortRevisions :: "UserDocumentRevision list \<Rightarrow> UserDocumentRevision list" where
  "sortRevisions rs = foldr insertRevision rs []"

definition sortedRevisions0 :: "RootState \<Rightarrow> string \<Rightarrow> UserDocumentRevision list" where
  "sortedRevisions0 st documentId = sortRevisions (revisions st documentId)"

definition unsavedRevision :: "RootState \<Rightarrow> string \<Rightarrow> RevisionObject" where
  "unsavedRevision st documentId =
     \<lparr>obj_id = localHead st documentId,
      obj_documentId = map_option local_id (localDocument st documentId),
      obj_createdAt = map_option local_updatedAt (localDocument st documentId),
      obj_author = None\<rparr>"

text \<open>\<^verbatim>\<open>sortedRevisions\<close> after \<^verbatim>\<open>if (unsavedChanges) sortedRevisions.unshift(unsavedRevision)\<close>.\<close>

definition sortedRevisions :: "RootState \<Rightarrow> string \<Rightarrow> RevisionObject list" where
  "sortedRevisions st documentId =
     (if unsavedChanges st documentId
      then unsavedRevision st documentId # map revisionObject (sortedRevisions0 st documentId)
      else map revisionObject (sortedRevisions0 st documentId))"

definition isAuthor :: "RootState \<Rightarrow> string \<Rightarrow> bool" where
  "isAuthor st documentId =
     (case cloudDocument st documentId of
        None \<Rightarrow> True
      | Some c \<Rightarrow> Some (user_id (cloud_author c)) = map_option user_id (state_user st))"

definition isCoauthor :: "RootState \<Rightarrow> string \<Rightarrow> bool" where
  "isCoauthor st documentId =
     (case cloudDocument st documentId of
        None \<Rightarrow> False
      | Some c \<Rightarrow>
          list_ex (\<lambda>u. Some (user_id u) = map_option user_id (state_user st)) (cloud_coauthors c))"

text \<open>The ids the reconciliation knows: those of the document's local and cloud revisions.\<close>

definition knownRevisionIds :: "RootState \<Rightarrow> string \<Rightarrow> string set" where
  "knownRevisionIds st documentId =
     lrev_id ` set (localDocumentRevisions st documentId) \<union>
     crev_id ` set (cloudDocumentRevisions st documentId)"


section \<open>EditDocumentInfo: the derived collaborators\<close>

text \<open>
  \<^verbatim>\<open>EditDocumentInfo\<close> (the fourth component of \<^verbatim>\<open>src/unnamed/part_000\<close>) receives the cloud
  document and the signed-in user, if any.
\<close>

definition handle :: "CloudDocument \<Rightarrow> string" where
  "handle c = (case cloud_handle c of None \<Rightarrow> cloud_id c | Some h \<Rightarrow> if h = [] then cloud_id c else h)"

definition isPublished :: "CloudDocument \<Rightarrow> bool" where
  "isPublished c = cloud_published c"

definition isCollab :: "CloudDocument \<Rightarrow> bool" where
  "isCollab c = (isPublished c \<and> cloud_collab c)"

text \<open>The callback of \<^verbatim>\<open>cloudDocument.revisions.reduce((acc, rev) => ..., [])\<close>.\<close>

definition collectCollaborator ::
  "CloudDocument \<Rightarrow> CloudDocumentRevision \<Rightarrow> User list \<Rightarrow> User list" where
  "collectCollaborator c revision acc =
     (if user_id (crev_author revision) \<noteq> user_id (cloud_author c) \<and>
         \<not> list_ex (\<lambda>u. user_id u = user_id (crev_author revision)) (cloud_coauthors c) \<and>
         find (\<lambda>u. user_id u = user_id (crev_author revision)) acc = None
      then acc @ [crev_author revision] else acc)"

definition collaborators :: "CloudDocument \<Rightarrow> User list" where
  "collaborators c =
     (if isCollab c then fold (collectCollaborator c) (cloud_revisions c) [] else [])"

definition isEditable :: "CloudDocument \<Rightarrow> User option \<Rightarrow> bool" where
  "isEditable c user =
     (Some (user_id (cloud_author c)) = map_option user_id user \<or>
      list_ex (\<lambda>u. Some (user_id u) = map_option user_id user) (cloud_coauthors c) \<or>
      isCollab c)"


section \<open>JavaScript values and the built-in functions of the engine\<close>

text \<open>
  The import code works on whatever \<^verbatim>\<open>JSON.parse\<close> returns, cast to
  \<^verbatim>\<open>EditorDocument\<close> without a check. A value is therefore modelled as the JSON value it
  is at run time. The pairs of an object are in the order in which the engine enumerates
  its properties, each key once.
\<close>

datatype json =
  JNull
| JBool bool
| JNumber rat
| JString string
| JArray "json list"
| JObject "(string \<times> json) list"

datatype exn = SyntaxError | TypeError

text \<open>
  \<^verbatim>\<open>v.k\<close> for the two keys the code reads, \<^verbatim>\<open>id\<close> and \<^verbatim>\<open>name\<close>: an own property of
  an object, \<^verbatim>\<open>undefined\<close> (\<open>None\<close>) on an array, a string, a number or a boolean, and a
  \<^verbatim>\<open>TypeError\<close> on \<^verbatim>\<open>null\<close>.
\<close>

fun ownProperty :: "json \<Rightarrow> string \<Rightarrow> json option" where
  "ownProperty (JObject kvs) k = map_of kvs k"
| "ownProperty v k = None"

definition getProp :: "json \<Rightarrow> string \<Rightarrow> exn + json option" where
  "getProp v k = (if v = JNull then Inl TypeError else Inr (ownProperty v k))"

text \<open>
  \<^verbatim>\<open>Object.values(v)\<close>: the property values of an object, the elements of an array, the
  one-character strings of a string, nothing for a number or a boolean, and a
  \<^verbatim>\<open>TypeError\<close> on \<^verbatim>\<open>null\<close>.
\<close>

fun ownValues :: "json \<Rightarrow> json list" where
  "ownValues (JObject kvs) = map snd kvs"
| "ownValues (JArray vs) = vs"
| "ownValues (JString s) = map (\<lambda>c. JString [c]) s"
| "ownValues v = []"

definition Object_values :: "json \<Rightarrow> exn + json list" where
  "Object_values v = (if v = JNull then Inl TypeError else Inr (ownValues v))"

text \<open>
  \<^verbatim>\<open>JSON.parse\<close>, \<^verbatim>\<open>JSON.stringify\<close> and the conversion of a number, an array or an
  object to a string belong to the JavaScript engine, not to the repository. They are
  parameters of the model: \<open>JSON_parse\<close> returns \<open>None\<close> where \<^verbatim>\<open>JSON.parse\<close> throws a
  \<^verbatim>\<open>SyntaxError\<close>.
\<close>

record builtins =
  JSON_parse :: "string \<Rightarrow> json option"
  JSON_stringify :: "json \<Rightarrow> string"
  ToString :: "json \<Rightarrow> string"

text \<open>The conversion of \<^verbatim>\<open>${v}\<close> in a template literal.\<close>

definition template :: "builtins \<Rightarrow> json option \<Rightarrow> string" where
  "template B v =
     (case v of
        None \<Rightarrow> ''undefined''
      | Some JNull \<Rightarrow> ''null''
      | Some (JBool b) \<Rightarrow> (if b then ''true'' else ''false'')
      | Some (JString s) \<Rightarrow> s
      | Some w \<Rightarrow> ToString B w)"

text \<open>
  \<^verbatim>\<open>validate\<close> of the \<^verbatim>\<open>uuid\<close> package: \<^verbatim>\<open>typeof uuid === 'string' && REGEX.test(uuid)\<close>,
  with the package's regular expression
  \<^verbatim>\<open>/^(?:[0-9a-f]{8}-[0-9a-f]{4}-[1-5][0-9a-f]{3}-[89ab][0-9a-f]{3}-[0-9a-f]{12}|00000000-0000-0000-0000-000000000000)$/i\<close>.
  Later releases of the package accept more version digits; nothing below depends on
  which strings of that shape are accepted.
\<close>

definition hexDigit :: "char \<Rightarrow> bool" where
  "hexDigit c = (c \<in> set ''0123456789abcdefABCDEF'')"

definition uuidPattern :: "(char \<Rightarrow> bool) list" where
  "uuidPattern =
     replicate 8 hexDigit @ [\<lambda>c. c = CHR ''-''] @
     replicate 4 hexDigit @ [\<lambda>c. c = CHR ''-''] @
     [\<lambda>c. c \<in> set ''12345''] @ replicate 3 hexDigit @ [\<lambda>c. c = CHR ''-''] @
     [\<lambda>c. c \<in> set ''89abAB''] @ replicate 3 hexDigit @ [\<lambda>c. c = CHR ''-''] @
     replicate 12 hexDigit"

definition REGEX_test :: "string \<Rightarrow> bool" where
  "REGEX_test s =
     (list_all2 (\<lambda>p c. p c) uuidPattern s \<or> s = ''00000000-0000-0000-0000-000000000000'')"

definition validate :: "json option \<Rightarrow> bool" where
  "validate v = (case v of Some (JString s) \<Rightarrow> REGEX_test s | _ \<Rightarrow> False)"


section \<open>Documents: import and backup\<close>

text \<open>
  The functions of \<^verbatim>\<open>src/components/Documents.tsx\<close> change nothing themselves: they
  dispatch actions to the store and navigate. The model returns the actions in the order
  they are dispatched.

  The \<^verbatim>\<open>action\<close> field of the alert is JavaScript source text,
  \<^verbatim>\<open>dispatch(actions.updateLocalDocument({id:"...",partial:...})).then(() => {navigate("/edit/...");})\<close>.
  The model keeps the program that text denotes, a \<open>command\<close>: the update of the local
  document with the id and the partial document written into the text and, in the
  continuation of its promise, the navigation (if any); \<open>commandSource\<close> is the text
  itself.

  \<open>Announce title subtitle\<close> is \<^verbatim>\<open>dispatch(actions.announce({ message: { title, subtitle } }))\<close>,
  \<open>Alert title content c\<close> is \<^verbatim>\<open>dispatch(actions.alert({ title, content, action }))\<close>, and
  \<open>CreateLocalDocumentThen document path\<close> is
  \<^verbatim>\<open>dispatch(actions.createLocalDocument(document)).then(() => { navigateTo && navigate(path); })\<close>,
  with \<open>None\<close> for the path when \<^verbatim>\<open>navigateTo\<close> is not set.
\<close>

datatype command =
  UpdateLocalDocumentThen (update_id: string) (update_partial: json)
    (then_navigate: "string option")

datatype action =
  Announce string string
| Alert string string command
| CreateLocalDocumentThen json "string option"

definition editPath :: "builtins \<Rightarrow> json option \<Rightarrow> string" where
  "editPath B idv = ''/edit/'' @ template B idv"

definition commandSource :: "builtins \<Rightarrow> command \<Rightarrow> string" where
  "commandSource B c =
     ''dispatch(actions.updateLocalDocument({id:'' @ [CHR 0x22] @ update_id c @
     [CHR 0x22] @ '',partial:'' @ JSON_stringify B (update_partial c) @ ''})).then(() => {'' @
     (case then_navigate c of
        None \<Rightarrow> []
      | Some path \<Rightarrow> ''navigate('' @ [CHR 0x22] @ path @ [CHR 0x22] @ '');'') @
     ''})''"

text \<open>\<^verbatim>\<open>documents.find(d => d.id === document.id && d.local)\<close>, as a truth value.\<close>

definition localDocumentExists :: "UserDocument list \<Rightarrow> json option \<Rightarrow> bool" where
  "localDocumentExists documents idv =
     (find (\<lambda>d. Some (JString (doc_id d)) = idv \<and> doc_local d \<noteq> None) documents \<noteq> None)"

text \<open>
  A function that dispatches and may throw returns the actions dispatched so far and
  \<open>Some\<close> exception if it was left by one.
\<close>

definition addDocument ::
  "builtins \<Rightarrow> UserDocument list \<Rightarrow> json \<Rightarrow> bool \<Rightarrow> action list \<times> exn option" where
  "addDocument B documents document navigateTo =
     (case getProp document ''id'' of
        Inl e \<Rightarrow> ([], Some e)
      | Inr idv \<Rightarrow>
          if localDocumentExists documents idv
          then ([Alert ''Document already exists''
                   (''Do you want to overwrite '' @ template B (ownProperty document ''name'') @ ''?'')
                   (UpdateLocalDocumentThen (template B idv) document
                      (if navigateTo then Some (editPath B idv) else None))], None)
          else ([CreateLocalDocumentThen document
                   (if navigateTo then Some (editPath B idv) else None)], None))"

text \<open>
  \<^verbatim>\<open>Object.values(data).forEach((document) => { validate(document.id) && addDocument(document); })\<close>:
  an exception ends the iteration.
\<close>

fun forEachValue ::
  "builtins \<Rightarrow> UserDocument list \<Rightarrow> json list \<Rightarrow> action list \<times> exn option" where
  "forEachValue B documents [] = ([], None)"
| "forEachValue B documents (document # rest) =
     (case getProp document ''id'' of
        Inl e \<Rightarrow> ([], Some e)
      | Inr idv \<Rightarrow>
          if validate idv
          then (case addDocument B documents document False of
                  (acts, Some e) \<Rightarrow> (acts, Some e)
                | (acts, None) \<Rightarrow>
                    (case forEachValue B documents rest of (acts', r) \<Rightarrow> (acts @ acts', r)))
          else forEachValue B documents rest)"

definition invalidFile :: action where
  "invalidFile = Announce ''Invalid file'' ''Please select a valid .me file''"

text \<open>
  \<^verbatim>\<open>tryParseFile\<close> returns the dispatched actions and the document it returns
  (\<open>None\<close> for \<^verbatim>\<open>null\<close>). The \<^verbatim>\<open>catch\<close> block dispatches the notice; \<^verbatim>\<open>document\<close> is
  assigned before \<^verbatim>\<open>addDocument\<close> is called.
\<close>

definition tryParseFile ::
  "builtins \<Rightarrow> UserDocument list \<Rightarrow> string \<Rightarrow> action list \<times> json option" where
  "tryParseFile B documents content =
     (case JSON_parse B content of
        None \<Rightarrow> ([invalidFile], None)
      | Some data \<Rightarrow>
          (case getProp data ''id'' of
             Inl e \<Rightarrow> ([invalidFile], None)
           | Inr idv \<Rightarrow>
               if validate idv
               then (case addDocument B documents data True of
                       (acts, Some e) \<Rightarrow> (acts @ [invalidFile], Some data)
                     | (acts, None) \<Rightarrow> (acts, Some data))
               else (case Object_values data of
                       Inl e \<Rightarrow> ([invalidFile], None)
                     | Inr vs \<Rightarrow>
                         (case forEachValue B documents vs of
                            (acts, Some e) \<Rightarrow> (acts @ [invalidFile], None)
                          | (acts, None) \<Rightarrow> (acts, None)))))"


text \<open>The documents a list of actions hands to the store, created or offered for overwrite.\<close>

fun importedDocument :: "action \<Rightarrow> json list" where
  "importedDocument (CreateLocalDocumentThen document nav) = [document]"
| "importedDocument (Alert title content c) = [update_partial c]"
| "importedDocument (Announce title subtitle) = []"

definition importedDocuments :: "action list \<Rightarrow> json list" where
  "importedDocuments acts = concat (map importedDocument acts)"

text \<open>The actions that show a notice to the user.\<close>

fun isNotice :: "action \<Rightarrow> bool" where
  "isNotice (Announce title subtitle) = True"
| "isNotice a = False"


section \<open>StickyComponent: the nested editor\<close>

text \<open>
  The sticky note holds an editor of its own (the Lexical library, not part of the
  repository). Of the library the effect uses \<^verbatim>\<open>getEditorState().toJSON()\<close> and
  \<^verbatim>\<open>parseEditorState\<close>; they are parameters, over any type \<open>'s\<close> of editor states.
\<close>

record 's LexicalEditor =
  toJSON :: "'s \<Rightarrow> json"
  parseEditorState :: "string \<Rightarrow> 's"

text \<open>
  The truth value of a value in a condition: \<^verbatim>\<open>null\<close>, \<^verbatim>\<open>false\<close>, \<open>0\<close> and the empty
  string are falsy, like \<^verbatim>\<open>undefined\<close>; arrays and objects are truthy.
\<close>

fun truthy :: "json \<Rightarrow> bool" where
  "truthy JNull = False"
| "truthy (JBool b) = b"
| "truthy (JNumber n) = (n \<noteq> 0)"
| "truthy (JString s) = (s \<noteq> [])"
| "truthy (JArray vs) = True"
| "truthy (JObject kvs) = True"

text \<open>
  The body of \<^verbatim>\<open>useEffect\<close> in \<^verbatim>\<open>StickyComponent\<close> (\<^verbatim>\<open>src/unnamed/part_000\<close>, lines 57 to
  67), run with the editor's current state and the \<^verbatim>\<open>data\<close> property: \<open>Some\<close> state
  when \<^verbatim>\<open>setEditorState\<close> is called with it, \<open>None\<close> when the effect returns without.
  In \<^verbatim>\<open>if (editor && data)\<close> the editor is the object the component created, always
  truthy; \<^verbatim>\<open>data\<close> is \<^verbatim>\<open>undefined\<close> (\<open>None\<close>) or the value the node holds.
\<close>

definition stickyEffect ::
  "builtins \<Rightarrow> 's LexicalEditor \<Rightarrow> 's \<Rightarrow> json option \<Rightarrow> 's option" where
  "stickyEffect B L editorState data =
     (case data of
        None \<Rightarrow> None
      | Some d \<Rightarrow>
          if \<not> truthy d then None
          else if JSON_stringify B (toJSON L editorState) = JSON_stringify B d then None
          else Some (parseEditorState L (JSON_stringify B d)))"



section \<open>Notions of the specification\<close>

text \<open>
  "Deduplicated by id, in order of first appearance": the first element is kept, the later
  elements with its key are dropped, and so on with what remains.
\<close>

fun dedup_by :: "('a \<Rightarrow> 'k) \<Rightarrow> 'a list \<Rightarrow> 'a list" where
  "dedup_by f [] = []"
| "dedup_by f (x # xs) = x # dedup_by f (filter (\<lambda>y. f y \<noteq> f x) xs)"

text \<open>
  The collaborators as the specification words them: the revision authors who are neither
  the document author nor a listed coauthor, deduplicated by user id, in order of first
  appearance in the revision list.
\<close>

definition collaboratorSpec :: "CloudDocument \<Rightarrow> User list" where
  "collaboratorSpec c =
     dedup_by user_id
       (filter (\<lambda>u. user_id u \<noteq> user_id (cloud_author c) \<and>
                    user_id u \<notin> user_id ` set (cloud_coauthors c))
          (map crev_author (cloud_revisions c)))"

text \<open>
  "Most recent first, ties in \<^verbatim>\<open>createdAt\<close> broken by revision id": of two revisions the
  earlier in the list is the more recent, or they are of the same time and their ids are
  in the order \<open>tie\<close>.
\<close>

definition mostRecentFirstTiesById ::
  "(string \<Rightarrow> string \<Rightarrow> bool) \<Rightarrow> UserDocumentRevision list \<Rightarrow> bool" where
  "mostRecentFirstTiesById tie rs =
     sorted_wrt (\<lambda>a b. timeOf (revision_createdAt b) < timeOf (revision_createdAt a) \<or>
                       (revision_createdAt a = revision_createdAt b \<and>
                        tie (revision_id a) (revision_id b))) rs"













section \<open>Example values\<close>

definition U1 :: User where
  "U1 = \<lparr>user_id = ''U1'', user_handle = None, user_name = ''Ada''\<rparr>"

definition U2 :: User where
  "U2 = \<lparr>user_id = ''U2'', user_handle = None, user_name = ''Bob''\<rparr>"

definition U3 :: User where
  "U3 = \<lparr>user_id = ''U3'', user_handle = Some ''cy'', user_name = ''Cy''\<rparr>"

definition cloudRevision :: "string \<Rightarrow> int \<Rightarrow> User \<Rightarrow> CloudDocumentRevision" where
  "cloudRevision i t u =
     \<lparr>crev_id = i, crev_documentId = ''doc1'', crev_createdAt = Time t, crev_author = u\<rparr>"

definition localRevision :: "string \<Rightarrow> int \<Rightarrow> LocalDocumentRevision" where
  "localRevision i t = \<lparr>lrev_id = i, lrev_documentId = ''doc1'', lrev_createdAt = Time t\<rparr>"

text \<open>
  The cloud document of the specification's example: author \<open>U1\<close>, coauthors \<open>[U2]\<close>,
  revisions authored by \<open>U1, U2, U3, U3, U1\<close>.
\<close>

definition exampleCloud :: CloudDocument where
  "exampleCloud =
     \<lparr>cloud_id = ''doc1'', cloud_handle = None, cloud_name = ''Notes'', cloud_head = ''B'',
      cloud_createdAt = Time 10, cloud_updatedAt = Time 50, cloud_author = U1, cloud_coauthors = [U2],
      cloud_revisions =
        [cloudRevision ''r1'' 10 U1, cloudRevision ''r2'' 20 U2, cloudRevision ''r3'' 30 U3,
         cloudRevision ''r4'' 40 U3, cloudRevision ''B'' 50 U1],
      cloud_published = True, cloud_collab = True\<rparr>"

definition exampleLocal :: LocalDocument where
  "exampleLocal =
     \<lparr>local_id = ''doc1'', local_name = ''Notes'', local_head = ''A'',
      local_createdAt = Time 10, local_updatedAt = Time 60\<rparr>"

definition exampleState ::
  "LocalDocument option \<Rightarrow> CloudDocument option \<Rightarrow> LocalDocumentRevision list \<Rightarrow> RootState" where
  "exampleState l c rs =
     \<lparr>state_user = Some U1,
      state_documents = [\<lparr>doc_id = ''doc1'', doc_local = l, doc_cloud = c\<rparr>],
      state_revisions = rs\<rparr>"

text \<open>Three cloud revisions of the same time, listed with the ids \<open>b\<close>, \<open>a\<close>, \<open>c\<close>.\<close>

definition tiedCloud :: CloudDocument where
  "tiedCloud =
     exampleCloud\<lparr>cloud_revisions :=
       [cloudRevision ''b'' 100 U1, cloudRevision ''a'' 100 U1, cloudRevision ''c'' 100 U1]\<rparr>"

text \<open>
  Three cloud revisions listed \<open>a\<close> (time 10), \<open>bad\<close> (a \<^verbatim>\<open>createdAt\<close> that does not
  parse), \<open>c\<close> (time 30).
\<close>

definition invalidDateCloud :: CloudDocument where
  "invalidDateCloud =
     exampleCloud\<lparr>cloud_revisions :=
       [cloudRevision ''a'' 10 U1,
        (cloudRevision ''bad'' 0 U1)\<lparr>crev_createdAt := InvalidDate\<rparr>,
        cloudRevision ''c'' 30 U1]\<rparr>"

text \<open>
  A finite part of an engine, for the examples: each listed text parses to the value
  listed with it, each listed value is serialised to its text.
\<close>

definition tableEngine :: "(string \<times> json) list \<Rightarrow> builtins" where
  "tableEngine table =
     \<lparr>JSON_parse = map_of table,
      JSON_stringify = (\<lambda>v. case find (\<lambda>(t, w). w = v) table of Some (t, w) \<Rightarrow> t | None \<Rightarrow> []),
      ToString = (\<lambda>v. [])\<rparr>"

definition exampleId :: string where
  "exampleId = ''123e4567-e89b-12d3-a456-426614174000''"

definition exampleDocument :: json where
  "exampleDocument = JObject [(''id'', JString exampleId), (''name'', JString ''Notes'')]"

definition exampleDocument2 :: json where
  "exampleDocument2 =
     JObject [(''id'', JString ''9b2f8c1e-7d4a-4f6b-8a3c-5e1d2f3a4b5c''), (''name'', JString ''Draft'')]"

definition invalidBundleText :: string where
  \<open>invalidBundleText = ''{"foo": {"id": "not-a-uuid"}}''\<close>

definition invalidBundle :: json where
  "invalidBundle = JObject [(''foo'', JObject [(''id'', JString ''not-a-uuid'')])]"

definition nullEntryText :: string where
  \<open>nullEntryText =
     ''{"a": null, "b": {"id": "123e4567-e89b-12d3-a456-426614174000", "name": "Notes"}}''\<close>

definition nullEntryBundle :: json where
  "nullEntryBundle = JObject [(''a'', JNull), (''b'', exampleDocument)]"

definition mixedBundleText :: string where
  \<open>mixedBundleText =
     ''{"x": {"id": "123e4567-e89b-12d3-a456-426614174000", "name": "Notes"}, "y": {"id": "not-a-uuid"}, "z": 7}''\<close>

definition mixedBundle :: json where
  "mixedBundle =
     JObject [(''x'', exampleDocument), (''y'', JObject [(''id'', JString ''not-a-uuid'')]),
              (''z'', JNumber 7)]"

definition backupText :: string where
  \<open>backupText =
     ''[{"id":"123e4567-e89b-12d3-a456-426614174000","name":"Notes"},{"id":"9b2f8c1e-7d4a-4f6b-8a3c-5e1d2f3a4b5c","name":"Draft"}]''\<close>

definition singleDocumentText :: string where
  \<open>singleDocumentText = ''{"id":"123e4567-e89b-12d3-a456-426614174000","name":"Notes"}''\<close>

definition reorderedText :: string where
  \<open>reorderedText = ''{"name":"Notes","id":"123e4567-e89b-12d3-a456-426614174000"}''\<close>

text \<open>The example document with its keys in the other order.\<close>

definition reorderedDocument :: json where
  "reorderedDocument = JObject [(''name'', JString ''Notes''), (''id'', JString exampleId)]"

definition exampleEngine :: builtins where
  "exampleEngine =
     tableEngine
       [(invalidBundleText, invalidBundle), (nullEntryText, nullEntryBundle),
        (mixedBundleText, mixedBundle),
        (backupText, JArray [exampleDocument, exampleDocument2]),
        (singleDocumentText, exampleDocument), (reorderedText, reorderedDocument)]"




section \<open>Lemmas\<close>

subsection \<open>First-occurrence deduplication\<close>

lemma set_dedup_by_subset: "set (dedup_by f xs) \<subseteq> set xs"
  by (induction f xs rule: dedup_by.induct) auto

lemma image_set_dedup_by: "f ` set (dedup_by f xs) = f ` set xs"
proof (induction f xs rule: dedup_by.induct)
  case (1 f)
  then show ?case by simp
next
  case (2 f x xs)
  have "f ` set (x # xs) = insert (f x) (f ` set (filter (\<lambda>y. f y \<noteq> f x) xs))"
    by auto
  with 2 show ?case by simp
qed

lemma distinct_dedup_by: "distinct (map f (dedup_by f xs))"
proof (induction f xs rule: dedup_by.induct)
  case (1 f)
  then show ?case by simp
next
  case (2 f x xs)
  have "f x \<notin> f ` set (dedup_by f (filter (\<lambda>y. f y \<noteq> f x) xs))"
    using set_dedup_by_subset [of f "filter (\<lambda>y. f y \<noteq> f x) xs"] by auto
  with 2 show ?case by simp
qed

subsection \<open>The merged revision list\<close>

lemma fold_pushRevision:
  "fold pushRevision ls acc =
     acc @ map LocalRevision
       (dedup_by lrev_id (filter (\<lambda>r. lrev_id r \<notin> revision_id ` set acc) ls))"
proof (induction ls arbitrary: acc)
  case Nil
  then show ?case by simp
next
  case (Cons x xs)
  show ?case
  proof (cases "lrev_id x \<in> revision_id ` set acc")
    case True
    then have "pushRevision x acc = acc"
      by (auto simp: pushRevision_def find_None_iff image_iff)
    with True Cons show ?thesis by simp
  next
    case False
    then have p: "pushRevision x acc = acc @ [LocalRevision x]"
      by (auto simp: pushRevision_def find_None_iff image_iff)
    show ?thesis using False by (simp add: p Cons conj_commute)
  qed
qed

lemma revisions_closed_form:
  "revisions st d =
     map CloudRevision (cloudDocumentRevisions st d) @
     map LocalRevision
       (dedup_by lrev_id
          (filter (\<lambda>r. lrev_id r \<notin> crev_id ` set (cloudDocumentRevisions st d))
             (localDocumentRevisions st d)))"
  by (simp add: revisions_def fold_pushRevision image_image)

lemma revision_ids_known: "revision_id ` set (revisions st d) = knownRevisionIds st d"
proof -
  let ?cs = "cloudDocumentRevisions st d" and ?ls = "localDocumentRevisions st d"
  let ?new = "filter (\<lambda>r. lrev_id r \<notin> crev_id ` set ?cs) ?ls"
  have "revision_id ` set (revisions st d) =
          crev_id ` set ?cs \<union> lrev_id ` set (dedup_by lrev_id ?new)"
    by (simp add: revisions_closed_form image_Un image_image)
  also have "\<dots> = crev_id ` set ?cs \<union> lrev_id ` set ?new"
    by (simp add: image_set_dedup_by)
  also have "\<dots> = knownRevisionIds st d"
    by (auto simp: knownRevisionIds_def)
  finally show ?thesis .
qed

lemma revision_ids_distinct:
  assumes "distinct (map crev_id (cloudDocumentRevisions st d))"
  shows "distinct (map revision_id (revisions st d))"
proof -
  let ?cs = "cloudDocumentRevisions st d" and ?ls = "localDocumentRevisions st d"
  let ?new = "filter (\<lambda>r. lrev_id r \<notin> crev_id ` set ?cs) ?ls"
  have "lrev_id ` set (dedup_by lrev_id ?new) \<inter> crev_id ` set ?cs = {}"
    using set_dedup_by_subset [of lrev_id ?new] by auto
  then show ?thesis
    using assms distinct_dedup_by [of lrev_id ?new]
    by (auto simp: revisions_closed_form comp_def)
qed

lemma set_insertRevision: "set (insertRevision x ys) = insert x (set ys)"
  by (induction ys) auto

lemma set_sortRevisions: "set (sortRevisions rs) = set rs"
  unfolding sortRevisions_def by (induction rs) (auto simp: set_insertRevision)

lemma distinct_insertRevision:
  "distinct (map f (insertRevision x ys)) \<longleftrightarrow> f x \<notin> f ` set ys \<and> distinct (map f ys)"
  by (induction ys) (auto simp: set_insertRevision)

lemma distinct_sortRevisions: "distinct (map f (sortRevisions rs)) \<longleftrightarrow> distinct (map f rs)"
  unfolding sortRevisions_def
  by (induction rs) (auto simp: distinct_insertRevision set_sortRevisions [unfolded sortRevisions_def])

lemma SortCompare_valid:
  "revision_createdAt x \<noteq> InvalidDate \<Longrightarrow> revision_createdAt y \<noteq> InvalidDate \<Longrightarrow>
   SortCompare x y = timeOf (revision_createdAt y) - timeOf (revision_createdAt x)"
  by (cases "revision_createdAt x"; cases "revision_createdAt y")
     (simp_all add: SortCompare_def comparefn_def)

lemma insertRevision_valid:
  assumes "revision_createdAt x \<noteq> InvalidDate"
      and "\<forall>y\<in>set ys. revision_createdAt y \<noteq> InvalidDate"
  shows "insertRevision x ys = insort_key (\<lambda>r. - timeOf (revision_createdAt r)) x ys"
  using assms by (induction ys) (simp_all add: SortCompare_valid)

lemma sortRevisions_valid:
  assumes "\<forall>r\<in>set rs. revision_createdAt r \<noteq> InvalidDate"
  shows "sortRevisions rs = sort_key (\<lambda>r. - timeOf (revision_createdAt r)) rs"
  using assms
proof (induction rs)
  case Nil
  then show ?case by (simp add: sortRevisions_def)
next
  case (Cons x rs)
  have v: "\<forall>y\<in>set (sortRevisions rs). revision_createdAt y \<noteq> InvalidDate"
    using Cons.prems by (simp add: set_sortRevisions)
  have "sortRevisions (x # rs) = insertRevision x (sortRevisions rs)"
    by (simp add: sortRevisions_def)
  also have "\<dots> = insort_key (\<lambda>r. - timeOf (revision_createdAt r)) x (sortRevisions rs)"
    using Cons.prems v by (simp add: insertRevision_valid)
  finally show ?case using Cons by simp
qed

lemma localHead_Some: "localDocument st d = Some l \<Longrightarrow> localHead st d = Some (local_head l)"
  by (simp add: localHead_def)

lemma unsavedChanges_iff:
  "localDocument st d = Some l \<Longrightarrow>
     unsavedChanges st d \<longleftrightarrow> local_head l \<notin> knownRevisionIds st d"
  by (auto simp: unsavedChanges_def isHeadLocalRevision_def isHeadCloudRevision_def
      localHead_Some knownRevisionIds_def list_ex_iff image_iff)

lemma unsavedChanges_no_local:
  "localDocument st d = None \<Longrightarrow> unsavedChanges st d"
  by (simp add: unsavedChanges_def isHeadLocalRevision_def isHeadCloudRevision_def
      localHead_def list_ex_iff)

lemma isHeadOutOfSync_ignores_revisions:
  "isHeadOutOfSync (st\<lparr>state_revisions := rs\<rparr>) d = isHeadOutOfSync st d"
  by (simp add: isHeadOutOfSync_def isUploaded_def isLocalDocument_def isCloudDocument_def
      localDocument_def cloudDocument_def userDocument_def)

subsection \<open>The collaborators\<close>

lemma fold_collectCollaborator:
  "fold (collectCollaborator c) rs acc =
     acc @ dedup_by user_id
       (filter (\<lambda>u. (user_id u \<noteq> user_id (cloud_author c) \<and>
                      user_id u \<notin> user_id ` set (cloud_coauthors c)) \<and>
                     user_id u \<notin> user_id ` set acc)
          (map crev_author rs))"
proof (induction rs arbitrary: acc)
  case Nil
  then show ?case by simp
next
  case (Cons r rs)
  let ?u = "crev_author r"
  show ?case
  proof (cases "user_id ?u \<noteq> user_id (cloud_author c) \<and>
                user_id ?u \<notin> user_id ` set (cloud_coauthors c) \<and>
                user_id ?u \<notin> user_id ` set acc")
    case True
    then have p: "collectCollaborator c r acc = acc @ [?u]"
      by (auto simp: collectCollaborator_def find_None_iff list_ex_iff image_iff)
    show ?thesis using True by (simp add: p Cons conj_commute conj_left_commute)
  next
    case False
    then have p: "collectCollaborator c r acc = acc"
      by (auto simp: collectCollaborator_def find_None_iff list_ex_iff image_iff)
    show ?thesis using False by (auto simp add: p Cons)
  qed
qed

subsection \<open>Import\<close>

lemma addDocument_not_null:
  "document \<noteq> JNull \<Longrightarrow>
   addDocument B documents document navigateTo =
     ([if localDocumentExists documents (ownProperty document ''id'')
       then Alert ''Document already exists''
              (''Do you want to overwrite '' @ template B (ownProperty document ''name'') @ ''?'')
              (UpdateLocalDocumentThen (template B (ownProperty document ''id'')) document
                 (if navigateTo then Some (editPath B (ownProperty document ''id'')) else None))
       else CreateLocalDocumentThen document
              (if navigateTo then Some (editPath B (ownProperty document ''id'')) else None)],
      None)"
  unfolding addDocument_def getProp_def by simp

lemma addDocument_snd: "document \<noteq> JNull \<Longrightarrow> snd (addDocument B documents document navigateTo) = None"
  by (simp add: addDocument_not_null)

lemma forEachValue_Cons_null:
  "forEachValue B documents (JNull # vs) = ([], Some TypeError)"
  by (simp add: getProp_def)

lemma forEachValue_Cons_not_null:
  "v \<noteq> JNull \<Longrightarrow>
   forEachValue B documents (v # vs) =
     (if validate (ownProperty v ''id'')
      then (fst (addDocument B documents v False) @ fst (forEachValue B documents vs),
            snd (forEachValue B documents vs))
      else forEachValue B documents vs)"
proof -
  assume n: "v \<noteq> JNull"
  obtain acts where a: "addDocument B documents v False = (acts, None)"
    using addDocument_not_null [OF n] by blast
  obtain acts' r where f: "forEachValue B documents vs = (acts', r)"
    by (cases "forEachValue B documents vs")
  show ?thesis
    using n by (simp add: getProp_def a f)
qed

lemma imported_addDocument:
  assumes "document \<noteq> JNull"
  shows "importedDocuments (fst (addDocument B documents document navigateTo)) = [document]"
proof (cases "localDocumentExists documents (ownProperty document ''id'')")
  case True
  then show ?thesis
    unfolding addDocument_not_null [OF assms] importedDocuments_def by simp
next
  case False
  then show ?thesis
    unfolding addDocument_not_null [OF assms] importedDocuments_def by simp
qed

lemma validate_not_null: "validate (ownProperty v ''id'') \<Longrightarrow> v \<noteq> JNull"
  by (auto simp: validate_def)

lemma forEachValue_actions:
  "forEachValue B documents vs =
     (concat (map (\<lambda>v. fst (addDocument B documents v False))
        (filter (\<lambda>v. validate (ownProperty v ''id'')) (takeWhile (\<lambda>v. v \<noteq> JNull) vs))),
      if JNull \<in> set vs then Some TypeError else None)"
proof (induction vs)
  case Nil
  then show ?case by simp
next
  case (Cons v vs)
  show ?case
  proof (cases "v = JNull")
    case True
    have "forEachValue B documents (v # vs) = ([], Some TypeError)"
      unfolding True by (rule forEachValue_Cons_null)
    then show ?thesis using True by simp
  next
    case False
    have s: "fst (forEachValue B documents vs) =
               concat (map (\<lambda>v. fst (addDocument B documents v False))
                 (filter (\<lambda>v. validate (ownProperty v ''id'')) (takeWhile (\<lambda>v. v \<noteq> JNull) vs)))"
      and t: "snd (forEachValue B documents vs) = (if JNull \<in> set vs then Some TypeError else None)"
      by (simp_all add: Cons.IH)
    show ?thesis
    proof (cases "validate (ownProperty v ''id'')")
      case True
      then show ?thesis
        unfolding forEachValue_Cons_not_null [OF False] s t using False by simp
    next
      case v: False
      have "forEachValue B documents (v # vs) = forEachValue B documents vs"
        unfolding forEachValue_Cons_not_null [OF False] using v by simp
      then show ?thesis using False v by (simp add: Cons.IH)
    qed
  qed
qed

lemma takeWhile_not_null: "JNull \<notin> set vs \<Longrightarrow> takeWhile (\<lambda>v. v \<noteq> JNull) vs = vs"
  by (induction vs) auto

lemma forEachValue_no_null:
  assumes "JNull \<notin> set vs"
  shows "forEachValue B documents vs =
     (concat (map (\<lambda>v. fst (addDocument B documents v False))
        (filter (\<lambda>v. validate (ownProperty v ''id'')) vs)), None)"
  unfolding forEachValue_actions takeWhile_not_null [OF assms] using assms by simp

lemma imported_concat_addDocument:
  "JNull \<notin> set vs \<Longrightarrow>
   importedDocuments (concat (map (\<lambda>v. fst (addDocument B documents v False)) vs)) = vs"
proof (induction vs)
  case Nil
  then show ?case by (simp add: importedDocuments_def)
next
  case (Cons v vs)
  then have "v \<noteq> JNull" by auto
  then have "importedDocuments (fst (addDocument B documents v False)) = [v]"
    by (rule imported_addDocument)
  with Cons show ?case by (simp add: importedDocuments_def)
qed

lemma tryParseFile_unparseable:
  "JSON_parse B content = None \<or> JSON_parse B content = Some JNull \<Longrightarrow>
   tryParseFile B documents content = ([invalidFile], None)"
  by (auto simp: tryParseFile_def getProp_def)

lemma tryParseFile_single:
  assumes "JSON_parse B content = Some data"
      and "validate (ownProperty data ''id'')"
  shows "tryParseFile B documents content = (fst (addDocument B documents data True), Some data)"
proof -
  have n: "data \<noteq> JNull"
    using assms(2) by (rule validate_not_null)
  have a: "addDocument B documents data True =
             (fst (addDocument B documents data True), None)"
    using addDocument_not_null [OF n, of B documents True] by simp
  have "tryParseFile B documents content =
          (case addDocument B documents data True of
             (acts, Some e) \<Rightarrow> (acts @ [invalidFile], Some data)
           | (acts, None) \<Rightarrow> (acts, Some data))"
    using assms n by (simp add: tryParseFile_def getProp_def)
  also have "\<dots> = (fst (addDocument B documents data True), Some data)"
    by (subst a) simp
  finally show ?thesis .
qed

lemma tryParseFile_values:
  assumes "JSON_parse B content = Some data"
      and "data \<noteq> JNull"
      and "\<not> validate (ownProperty data ''id'')"
  shows "tryParseFile B documents content =
           (concat (map (\<lambda>v. fst (addDocument B documents v False))
              (filter (\<lambda>v. validate (ownProperty v ''id''))
                 (takeWhile (\<lambda>v. v \<noteq> JNull) (ownValues data)))) @
            (if JNull \<in> set (ownValues data) then [invalidFile] else []), None)"
  using assms
  by (simp add: tryParseFile_def getProp_def Object_values_def forEachValue_actions)

lemma no_notice_addDocument:
  assumes "document \<noteq> JNull"
  shows "\<not> list_ex isNotice (fst (addDocument B documents document navigateTo))"
  unfolding addDocument_not_null [OF assms] by simp

lemma no_notice_concat_addDocument:
  "JNull \<notin> set vs \<Longrightarrow>
   \<not> list_ex isNotice (concat (map (\<lambda>v. fst (addDocument B documents v False)) vs))"
proof (induction vs)
  case Nil
  then show ?case by simp
next
  case (Cons v vs)
  then have "v \<noteq> JNull" by auto
  then have "\<not> list_ex isNotice (fst (addDocument B documents v False))"
    by (rule no_notice_addDocument)
  with Cons show ?case by simp
qed

lemma invalidBundle_shape:
  "invalidBundle \<noteq> JNull"
  "\<not> validate (ownProperty invalidBundle ''id'')"
  "filter (\<lambda>v. validate (ownProperty v ''id'')) (ownValues invalidBundle) = []"
  "JNull \<notin> set (ownValues invalidBundle)"
  by code_simp+

lemma tryParseFile_decoding:
  assumes "JSON_parse B content = Some data"
  shows "(validate (ownProperty data ''id'') \<longrightarrow>
            tryParseFile B documents content =
              (fst (addDocument B documents data True), Some data) \<and>
            importedDocuments (fst (tryParseFile B documents content)) = [data] \<and>
            \<not> list_ex isNotice (fst (tryParseFile B documents content))) \<and>
         (\<not> validate (ownProperty data ''id'') \<and> data \<noteq> JNull \<and>
          JNull \<notin> set (ownValues data) \<longrightarrow>
            tryParseFile B documents content =
              (concat (map (\<lambda>v. fst (addDocument B documents v False))
                 (filter (\<lambda>v. validate (ownProperty v ''id'')) (ownValues data))), None) \<and>
            importedDocuments (fst (tryParseFile B documents content)) =
              filter (\<lambda>v. validate (ownProperty v ''id'')) (ownValues data) \<and>
            \<not> list_ex isNotice (fst (tryParseFile B documents content)))"
proof -
  have single: "tryParseFile B documents content =
              (fst (addDocument B documents data True), Some data) \<and>
            importedDocuments (fst (tryParseFile B documents content)) = [data] \<and>
            \<not> list_ex isNotice (fst (tryParseFile B documents content))"
    if v: "validate (ownProperty data ''id'')"
  proof -
    have n: "data \<noteq> JNull"
      using v by (rule validate_not_null)
    show ?thesis
      using no_notice_addDocument [OF n, of B documents True]
      by (simp add: tryParseFile_single [OF assms v] imported_addDocument [OF n])
  qed
  have many: "tryParseFile B documents content =
              (concat (map (\<lambda>v. fst (addDocument B documents v False))
                 (filter (\<lambda>v. validate (ownProperty v ''id'')) (ownValues data))), None) \<and>
            importedDocuments (fst (tryParseFile B documents content)) =
              filter (\<lambda>v. validate (ownProperty v ''id'')) (ownValues data) \<and>
            \<not> list_ex isNotice (fst (tryParseFile B documents content))"
    if v: "\<not> validate (ownProperty data ''id'')" and n: "data \<noteq> JNull"
      and m: "JNull \<notin> set (ownValues data)"
  proof -
    let ?valid = "filter (\<lambda>v. validate (ownProperty v ''id'')) (ownValues data)"
    have t: "tryParseFile B documents content =
               (concat (map (\<lambda>v. fst (addDocument B documents v False)) ?valid), None)"
      unfolding tryParseFile_values [OF assms n v] takeWhile_not_null [OF m]
      using m by simp
    have nn: "JNull \<notin> set ?valid"
      using m by simp
    show ?thesis
      using no_notice_concat_addDocument [OF nn, of B documents]
      by (simp add: t imported_concat_addDocument [OF nn])
  qed
  show ?thesis using single many by blast
qed





subsection \<open>The nested editor\<close>

lemma sticky_falsy_payload:
  "stickyEffect B L st None = None" "\<not> truthy d \<Longrightarrow> stickyEffect B L st (Some d) = None"
  by (simp_all add: stickyEffect_def)


section \<open>The reconciliation in DocumentInfo\<close>

text \<open>
  Claim C1. For every document whose local head id matches no revision id among the
  document's local revisions nor among its cloud revisions, the reconciliation reports
  unsaved changes and puts first in the rendered revision list a placeholder whose id is
  the local head, whose document id is the local document's id and whose creation date is
  the local document's \<^verbatim>\<open>updatedAt\<close>. The placeholder names no author: like every local
  revision it is the implicit local user's.
\<close>

theorem unsaved_head_placeholder_first:
  assumes "localDocument st documentId = Some l"
      and "local_head l \<notin> knownRevisionIds st documentId"
  shows "unsavedChanges st documentId \<and>
         sortedRevisions st documentId =
           \<lparr>obj_id = Some (local_head l), obj_documentId = Some (local_id l),
            obj_createdAt = Some (local_updatedAt l), obj_author = None\<rparr>
           # map revisionObject (sortedRevisions0 st documentId)"
proof -
  have u: "unsavedChanges st documentId"
    using assms by (simp add: unsavedChanges_iff)
  then show ?thesis
    by (simp add: sortedRevisions_def unsavedRevision_def localHead_Some assms(1))
qed

theorem unsaved_head_placeholder_first_witness:
  "localDocument (exampleState (Some exampleLocal) (Some exampleCloud) [localRevision ''L1'' 55]) ''doc1''
     = Some exampleLocal \<and>
   local_head exampleLocal \<notin>
     knownRevisionIds (exampleState (Some exampleLocal) (Some exampleCloud) [localRevision ''L1'' 55]) ''doc1'' \<and>
   unsavedChanges (exampleState (Some exampleLocal) (Some exampleCloud) [localRevision ''L1'' 55]) ''doc1'' \<and>
   hd (sortedRevisions (exampleState (Some exampleLocal) (Some exampleCloud) [localRevision ''L1'' 55]) ''doc1'')
     = \<lparr>obj_id = Some ''A'', obj_documentId = Some ''doc1'', obj_createdAt = Some (Time 60),
        obj_author = None\<rparr>"
proof -
  let ?st = "exampleState (Some exampleLocal) (Some exampleCloud) [localRevision ''L1'' 55]"
  have a: "localDocument ?st ''doc1'' = Some exampleLocal"
    by code_simp
  have b: "local_head exampleLocal \<notin> knownRevisionIds ?st ''doc1''"
    by code_simp
  have c: "local_head exampleLocal = ''A''" "local_id exampleLocal = ''doc1''"
    "local_updatedAt exampleLocal = Time 60"
    by (simp_all add: exampleLocal_def)
  show ?thesis
    using unsaved_head_placeholder_first [OF a b] a b by (simp add: c)
qed

text \<open>
  Claim C2. For every document with a local and a cloud side whose heads differ, the
  reconciliation reports the head out of sync; when both heads are ids of known revisions,
  it reports no unsaved changes at the same time.
\<close>

theorem head_out_of_sync_independent:
  assumes "localDocument st documentId = Some l"
      and "cloudDocument st documentId = Some c"
      and "local_head l \<noteq> cloud_head c"
  shows "isHeadOutOfSync st documentId \<and>
         (local_head l \<in> knownRevisionIds st documentId \<and>
          cloud_head c \<in> knownRevisionIds st documentId
            \<longrightarrow> \<not> unsavedChanges st documentId)"
proof -
  have "isHeadOutOfSync st documentId"
    using assms
    by (simp add: isHeadOutOfSync_def isUploaded_def isLocalDocument_def isCloudDocument_def)
  then show ?thesis
    using assms(1) by (simp add: unsavedChanges_iff)
qed

theorem head_out_of_sync_independent_witness:
  "localDocument (exampleState (Some exampleLocal) (Some exampleCloud) [localRevision ''A'' 60]) ''doc1''
     = Some exampleLocal \<and>
   cloudDocument (exampleState (Some exampleLocal) (Some exampleCloud) [localRevision ''A'' 60]) ''doc1''
     = Some exampleCloud \<and>
   local_head exampleLocal \<noteq> cloud_head exampleCloud \<and>
   local_head exampleLocal \<in>
     knownRevisionIds (exampleState (Some exampleLocal) (Some exampleCloud) [localRevision ''A'' 60]) ''doc1'' \<and>
   cloud_head exampleCloud \<in>
     knownRevisionIds (exampleState (Some exampleLocal) (Some exampleCloud) [localRevision ''A'' 60]) ''doc1'' \<and>
   isHeadOutOfSync (exampleState (Some exampleLocal) (Some exampleCloud) [localRevision ''A'' 60]) ''doc1'' \<and>
   \<not> unsavedChanges (exampleState (Some exampleLocal) (Some exampleCloud) [localRevision ''A'' 60]) ''doc1''"
proof -
  let ?st = "exampleState (Some exampleLocal) (Some exampleCloud) [localRevision ''A'' 60]"
  have a: "localDocument ?st ''doc1'' = Some exampleLocal"
    by code_simp
  have b: "cloudDocument ?st ''doc1'' = Some exampleCloud"
    by code_simp
  have c: "local_head exampleLocal \<noteq> cloud_head exampleCloud"
    by code_simp
  have d: "local_head exampleLocal \<in> knownRevisionIds ?st ''doc1''"
    by code_simp
  have e: "cloud_head exampleCloud \<in> knownRevisionIds ?st ''doc1''"
    by code_simp
  show ?thesis
    using head_out_of_sync_independent [OF a b c] a b c d e by simp
qed

text \<open>
  The two flags are computed from different data: \<open>isHeadOutOfSync\<close> reads no revision
  (\<open>isHeadOutOfSync_ignores_revisions\<close>), and \<open>unsavedChanges\<close> does not read the cloud
  head (\<open>unsavedChanges_iff\<close>).
\<close>

text \<open>
  Claim C3, as the specification states it: the merged revision list is the union of the
  local and the cloud revisions, deduplicated by id, most recent first, ties in
  \<^verbatim>\<open>createdAt\<close> broken by revision id. The code sorts by \<^verbatim>\<open>createdAt\<close> alone: three cloud
  revisions of one time, listed with the ids \<open>b\<close>, \<open>a\<close>, \<open>c\<close>, stay in that order, which
  is neither ascending nor descending in the id.
\<close>

theorem ties_not_broken_by_id:
  "\<not> mostRecentFirstTiesById (\<le>)
       (sortedRevisions0 (exampleState (Some exampleLocal) (Some tiedCloud) []) ''doc1'') \<and>
   \<not> mostRecentFirstTiesById (\<ge>)
       (sortedRevisions0 (exampleState (Some exampleLocal) (Some tiedCloud) []) ''doc1'')"
  by code_simp

text \<open>
  Claim C3, amended. The merged list holds the cloud revisions followed by the document's
  local revisions whose id is no cloud revision's, the first of each id. Its ids are
  those of both sides, and they are distinct when the ids of the cloud list are. When the
  \<^verbatim>\<open>createdAt\<close> of every revision of the merged list is a valid date, the list is ordered
  most recent first, and revisions of the same time keep the order they have in that
  concatenation.
\<close>

theorem merged_revisions_stable_order:
  "revisions st d =
     map CloudRevision (cloudDocumentRevisions st d) @
     map LocalRevision
       (dedup_by lrev_id
          (filter (\<lambda>r. lrev_id r \<notin> crev_id ` set (cloudDocumentRevisions st d))
             (localDocumentRevisions st d))) \<and>
   revision_id ` set (sortedRevisions0 st d) = knownRevisionIds st d \<and>
   (distinct (map crev_id (cloudDocumentRevisions st d))
      \<longrightarrow> distinct (map revision_id (sortedRevisions0 st d))) \<and>
   ((\<forall>r\<in>set (revisions st d). revision_createdAt r \<noteq> InvalidDate)
      \<longrightarrow> sorted_wrt (\<lambda>a b. timeOf (revision_createdAt b) \<le> timeOf (revision_createdAt a))
            (sortedRevisions0 st d) \<and>
          (\<forall>t. filter (\<lambda>r. revision_createdAt r = t) (sortedRevisions0 st d) =
               filter (\<lambda>r. revision_createdAt r = t) (revisions st d)))"
proof -
  let ?key = "\<lambda>r. - timeOf (revision_createdAt r)"
  have ids: "revision_id ` set (sortedRevisions0 st d) = knownRevisionIds st d"
    by (simp add: sortedRevisions0_def set_sortRevisions revision_ids_known)
  have dist: "distinct (map revision_id (sortedRevisions0 st d))"
    if "distinct (map crev_id (cloudDocumentRevisions st d))"
    using revision_ids_distinct [OF that]
    by (simp add: sortedRevisions0_def distinct_sortRevisions)
  have order: "sorted_wrt (\<lambda>a b. timeOf (revision_createdAt b) \<le> timeOf (revision_createdAt a))
                 (sortedRevisions0 st d) \<and>
               (\<forall>t. filter (\<lambda>r. revision_createdAt r = t) (sortedRevisions0 st d) =
                    filter (\<lambda>r. revision_createdAt r = t) (revisions st d))"
    if valid: "\<forall>r\<in>set (revisions st d). revision_createdAt r \<noteq> InvalidDate"
  proof -
    have s: "sortedRevisions0 st d = sort_key ?key (revisions st d)"
      by (simp add: sortedRevisions0_def sortRevisions_valid [OF valid])
    have "sorted (map ?key (sortedRevisions0 st d))"
      by (simp add: s)
    then have ord: "sorted_wrt (\<lambda>a b. timeOf (revision_createdAt b) \<le> timeOf (revision_createdAt a))
                      (sortedRevisions0 st d)"
      by (simp add: sorted_map)
    have k: "revision_createdAt r = t \<longleftrightarrow> t \<noteq> InvalidDate \<and> ?key r = - timeOf t"
      if "r \<in> set (revisions st d)" for r t
      using valid that by (cases "revision_createdAt r"; cases t) auto
    have stable: "filter (\<lambda>r. revision_createdAt r = t) (sortedRevisions0 st d) =
                  filter (\<lambda>r. revision_createdAt r = t) (revisions st d)" for t
    proof -
      have "filter (\<lambda>r. revision_createdAt r = t) (sortedRevisions0 st d) =
            filter (\<lambda>r. t \<noteq> InvalidDate \<and> ?key r = - timeOf t) (sort_key ?key (revisions st d))"
        unfolding s using k by (intro filter_cong) auto
      also have "\<dots> = filter (\<lambda>r. t \<noteq> InvalidDate)
                        (filter (\<lambda>r. ?key r = - timeOf t) (sort_key ?key (revisions st d)))"
        by (simp add: conj_commute)
      also have "\<dots> = filter (\<lambda>r. t \<noteq> InvalidDate)
                        (filter (\<lambda>r. ?key r = - timeOf t) (revisions st d))"
        by (simp only: sort_key_stable)
      also have "\<dots> = filter (\<lambda>r. t \<noteq> InvalidDate \<and> ?key r = - timeOf t) (revisions st d)"
        by (simp add: conj_commute)
      also have "\<dots> = filter (\<lambda>r. revision_createdAt r = t) (revisions st d)"
        using k by (intro filter_cong) auto
      finally show ?thesis .
    qed
    show ?thesis using ord stable by blast
  qed
  show ?thesis
    using revisions_closed_form [of st d] ids dist order by blast
qed

theorem merged_revisions_stable_order_witness:
  "distinct (map crev_id (cloudDocumentRevisions
       (exampleState (Some exampleLocal) (Some exampleCloud)
          [localRevision ''L1'' 55, localRevision ''r3'' 30, localRevision ''L1'' 56]) ''doc1'')) \<and>
   list_all (\<lambda>r. revision_createdAt r \<noteq> InvalidDate) (revisions
       (exampleState (Some exampleLocal) (Some exampleCloud)
          [localRevision ''L1'' 55, localRevision ''r3'' 30, localRevision ''L1'' 56]) ''doc1'') \<and>
   distinct (map revision_id (sortedRevisions0
       (exampleState (Some exampleLocal) (Some exampleCloud)
          [localRevision ''L1'' 55, localRevision ''r3'' 30, localRevision ''L1'' 56]) ''doc1'')) \<and>
   sorted_wrt (\<lambda>a b. timeOf (revision_createdAt b) \<le> timeOf (revision_createdAt a))
     (sortedRevisions0
       (exampleState (Some exampleLocal) (Some exampleCloud)
          [localRevision ''L1'' 55, localRevision ''r3'' 30, localRevision ''L1'' 56]) ''doc1'') \<and>
   map revision_id (sortedRevisions0
       (exampleState (Some exampleLocal) (Some exampleCloud)
          [localRevision ''L1'' 55, localRevision ''r3'' 30, localRevision ''L1'' 56]) ''doc1'')
     = [''L1'', ''B'', ''r4'', ''r3'', ''r2'', ''r1'']"
proof -
  let ?st = "exampleState (Some exampleLocal) (Some exampleCloud)
          [localRevision ''L1'' 55, localRevision ''r3'' 30, localRevision ''L1'' 56]"
  have a: "distinct (map crev_id (cloudDocumentRevisions ?st ''doc1''))"
    by code_simp
  have c: "list_all (\<lambda>r. revision_createdAt r \<noteq> InvalidDate) (revisions ?st ''doc1'')"
    by code_simp
  have b: "map revision_id (sortedRevisions0 ?st ''doc1'') = [''L1'', ''B'', ''r4'', ''r3'', ''r2'', ''r1'']"
    by code_simp
  have "distinct (map revision_id (sortedRevisions0 ?st ''doc1''))"
    using merged_revisions_stable_order [of ?st "''doc1''"] a by blast
  moreover have "sorted_wrt (\<lambda>a b. timeOf (revision_createdAt b) \<le> timeOf (revision_createdAt a))
     (sortedRevisions0 ?st ''doc1'')"
    using merged_revisions_stable_order [of ?st "''doc1''"] c
    unfolding list_all_iff by blast
  ultimately show ?thesis using a b c by blast
qed

text \<open>
  With a \<^verbatim>\<open>createdAt\<close> that does not parse the list need not be most recent first: the
  cloud revisions \<open>a\<close> (time 10), \<open>bad\<close> (invalid), \<open>c\<close> (time 30) stay in that order.
\<close>

lemma invalid_date_not_most_recent_first:
  "map revision_id
     (sortedRevisions0 (exampleState (Some exampleLocal) (Some invalidDateCloud) []) ''doc1'')
     = [''a'', ''bad'', ''c'']"
  by code_simp

text \<open>
  Claim C10. For every user document that has a cloud side and no local side, the
  reconciliation reports unsaved changes (the local head is \<^verbatim>\<open>undefined\<close> and equals no
  revision id) and puts first in the rendered list a placeholder whose id, document id
  and creation date are all \<^verbatim>\<open>undefined\<close>.
\<close>

theorem cloud_only_undefined_placeholder:
  assumes "userDocument st documentId = Some d"
      and "doc_local d = None"
      and "doc_cloud d = Some c"
  shows "unsavedChanges st documentId \<and>
         sortedRevisions st documentId =
           \<lparr>obj_id = None, obj_documentId = None, obj_createdAt = None, obj_author = None\<rparr>
           # map revisionObject (sortedRevisions0 st documentId)"
proof -
  have l: "localDocument st documentId = None"
    using assms(1,2) by (simp add: localDocument_def)
  then have u: "unsavedChanges st documentId"
    by (rule unsavedChanges_no_local)
  then show ?thesis
    by (simp add: sortedRevisions_def unsavedRevision_def localHead_def l)
qed

theorem cloud_only_undefined_placeholder_witness:
  "userDocument (exampleState None (Some exampleCloud) []) ''doc1''
     = Some \<lparr>doc_id = ''doc1'', doc_local = None, doc_cloud = Some exampleCloud\<rparr> \<and>
   unsavedChanges (exampleState None (Some exampleCloud) []) ''doc1'' \<and>
   hd (sortedRevisions (exampleState None (Some exampleCloud) []) ''doc1'')
     = \<lparr>obj_id = None, obj_documentId = None, obj_createdAt = None, obj_author = None\<rparr>"
proof -
  let ?st = "exampleState None (Some exampleCloud) []"
  let ?d = "\<lparr>doc_id = ''doc1'', doc_local = None, doc_cloud = Some exampleCloud\<rparr>"
  have a: "userDocument ?st ''doc1'' = Some ?d"
    by code_simp
  show ?thesis
    using cloud_only_undefined_placeholder [of ?st "''doc1''" ?d exampleCloud] a
    by simp
qed


section \<open>The collaborators in EditDocumentInfo\<close>

text \<open>
  Claim C4, as the specification states it: for every collaborative cloud document the
  collaborators are the revision authors who are neither the author nor a coauthor,
  deduplicated by user id, in order of first appearance. The code derives them only when
  the document is published as well: for the example document with \<^verbatim>\<open>collab\<close> set and
  \<^verbatim>\<open>published\<close> not, the list is empty.
\<close>

theorem collab_unpublished_no_collaborators:
  "cloud_collab (exampleCloud\<lparr>cloud_published := False\<rparr>) \<and>
   collaboratorSpec (exampleCloud\<lparr>cloud_published := False\<rparr>) = [U3] \<and>
   collaborators (exampleCloud\<lparr>cloud_published := False\<rparr>) = []"
  by code_simp

text \<open>
  Claim C4, amended. For every collaborative cloud document that is also published, the
  collaborators are exactly the revision authors who are neither the document author nor
  a listed coauthor, deduplicated by user id, in order of first appearance in the
  revision list; for author \<open>U1\<close>, coauthors \<open>[U2]\<close> and revisions by
  \<open>U1, U2, U3, U3, U1\<close> the result is \<open>[U3]\<close>. For every cloud document that is not
  published the list is empty.
\<close>

theorem collaborators_published_collab:
  "(cloud_published c \<and> cloud_collab c \<longrightarrow> collaborators c = collaboratorSpec c) \<and>
   (\<not> cloud_published c \<longrightarrow> collaborators c = [])"
proof -
  have "collaborators c = collaboratorSpec c" if "cloud_published c" "cloud_collab c"
    using that
    by (simp add: collaborators_def isCollab_def isPublished_def fold_collectCollaborator
        collaboratorSpec_def)
  moreover have "collaborators c = []" if "\<not> cloud_published c"
    using that by (simp add: collaborators_def isCollab_def isPublished_def)
  ultimately show ?thesis by blast
qed

theorem collaborators_published_collab_witness:
  "cloud_published exampleCloud \<and> cloud_collab exampleCloud \<and>
   \<not> cloud_published (exampleCloud\<lparr>cloud_published := False\<rparr>) \<and>
   collaborators (exampleCloud\<lparr>cloud_published := False\<rparr>) = [] \<and>
   user_id (cloud_author exampleCloud) = ''U1'' \<and>
   map user_id (cloud_coauthors exampleCloud) = [''U2''] \<and>
   map (\<lambda>r. user_id (crev_author r)) (cloud_revisions exampleCloud)
     = [''U1'', ''U2'', ''U3'', ''U3'', ''U1''] \<and>
   collaborators exampleCloud = [U3]"
proof -
  have a: "cloud_published exampleCloud" and b: "cloud_collab exampleCloud"
    by (simp_all add: exampleCloud_def)
  have s: "collaboratorSpec exampleCloud = [U3]"
    by code_simp
  have e: "user_id (cloud_author exampleCloud) = ''U1''"
    "map user_id (cloud_coauthors exampleCloud) = [''U2'']"
    "map (\<lambda>r. user_id (crev_author r)) (cloud_revisions exampleCloud)
       = [''U1'', ''U2'', ''U3'', ''U3'', ''U1'']"
    by code_simp+
  have u: "\<not> cloud_published (exampleCloud\<lparr>cloud_published := False\<rparr>)"
    by simp
  have "collaborators exampleCloud = [U3]"
    using collaborators_published_collab [of exampleCloud] a b s by simp
  moreover have "collaborators (exampleCloud\<lparr>cloud_published := False\<rparr>) = []"
    using collaborators_published_collab [of "exampleCloud\<lparr>cloud_published := False\<rparr>"] u
    by blast
  ultimately show ?thesis
    using a b u e by simp
qed


section \<open>Import and backup in Documents\<close>

text \<open>
  Claim C5, as the specification states it: the bundle text
  \<^verbatim>\<open>{"foo": {"id": "not-a-uuid"}}\<close> yields no imported document, a notice to the user and
  an unchanged store. The notice is dispatched in the \<^verbatim>\<open>catch\<close> block only, and nothing
  throws on this text: no notice is dispatched.
\<close>

theorem invalid_bundle_no_notice:
  "JSON_parse exampleEngine invalidBundleText = Some invalidBundle \<and>
   \<not> list_ex isNotice (fst (tryParseFile exampleEngine [] invalidBundleText))"
  by code_simp

text \<open>
  Claim C5, amended. With the bundle text \<^verbatim>\<open>{"foo": {"id": "not-a-uuid"}}\<close>, whatever the
  documents of the store, \<^verbatim>\<open>tryParseFile\<close> dispatches no action at all (no document is
  imported, the store is left as it is, no notice is shown) and returns \<^verbatim>\<open>null\<close>.
\<close>

theorem invalid_bundle_nothing_imported:
  assumes "JSON_parse B invalidBundleText = Some invalidBundle"
  shows "tryParseFile B documents invalidBundleText = ([], None)"
proof -
  have "forEachValue B documents (ownValues invalidBundle) = ([], None)"
    unfolding forEachValue_no_null [OF invalidBundle_shape(4)] invalidBundle_shape(3) by simp
  then show ?thesis
    using assms invalidBundle_shape(1,2)
    by (simp add: tryParseFile_def getProp_def Object_values_def)
qed

theorem invalid_bundle_nothing_imported_witness:
  "JSON_parse exampleEngine invalidBundleText = Some invalidBundle \<and>
   tryParseFile exampleEngine
     [\<lparr>doc_id = exampleId, doc_local = Some exampleLocal, doc_cloud = None\<rparr>] invalidBundleText
     = ([], None)"
proof -
  have a: "JSON_parse exampleEngine invalidBundleText = Some invalidBundle"
    by code_simp
  show ?thesis
    using invalid_bundle_nothing_imported [OF a] a by simp
qed

text \<open>
  Claim C6. For every input text, a structure whose top-level id is a valid UUID is
  imported as one document; otherwise every top-level value whose id is a valid UUID is
  imported as an independent document and every value failing validation is silently
  skipped. The code does so for every text without a \<^verbatim>\<open>null\<close> among the top-level values
  (\<open>tryParseFile_decoding\<close>): a number, an object without an id or with the id
  \<^verbatim>\<open>null\<close> is skipped without any action. A top-level value \<^verbatim>\<open>null\<close> is not: reading
  \<^verbatim>\<open>document.id\<close> of it throws, the iteration ends with the notice, and the valid
  document after it is not imported.
\<close>

theorem null_entry_stops_import:
  "JSON_parse exampleEngine nullEntryText = Some nullEntryBundle \<and>
   \<not> validate (ownProperty nullEntryBundle ''id'') \<and>
   filter (\<lambda>v. validate (ownProperty v ''id'')) (ownValues nullEntryBundle) = [exampleDocument] \<and>
   tryParseFile exampleEngine [] nullEntryText = ([invalidFile], None)"
  by code_simp

text \<open>
  A bundle without \<^verbatim>\<open>null\<close>: the valid document is created, the entry with the id
  \<^verbatim>\<open>not-a-uuid\<close> and the number are skipped.
\<close>

lemma mixed_bundle_import:
  "tryParseFile exampleEngine [] mixedBundleText
     = ([CreateLocalDocumentThen exampleDocument None], None)"
  by code_simp






section \<open>The nested editor of the sticky note\<close>





end
